theory Spec2Isabelle
  imports Main "HOL-Library.Word"
begin

section \<open>JavaScript values used by the planner\<close>

text \<open>
  A JavaScript string is a sequence of UTF-16 code units; \<open>===\<close> on strings and the key
  comparison of \<open>Map\<close> are equality of these sequences. \<open>js\<close> turns an ASCII literal
  into its code units.
\<close>

type_synonym js_string = "16 word list"

definition js :: "string \<Rightarrow> js_string" where
  "js s = map of_char s"

text \<open>
  Truthiness of an optional string (\<open>string | undefined\<close>): \<open>undefined\<close> and the empty
  string are falsy, every other string is truthy.
\<close>

fun truthy :: "js_string option \<Rightarrow> bool" where
  "truthy None = False"
| "truthy (Some s) = (s \<noteq> [])"

text \<open>
  \<open>Date.now()\<close> is an integer number of milliseconds; the numbers computed from it here
  stay far below \<open>2^53\<close>, where the arithmetic of JavaScript numbers is exact integer
  arithmetic, so times and durations are modelled as \<open>int\<close>.
\<close>

text \<open>The decimal rendering of an integer inside a template literal.\<close>

definition digit_unit :: "nat \<Rightarrow> 16 word" where
  "digit_unit d = of_nat (48 + d)"

fun nat_digits :: "nat \<Rightarrow> js_string" where
  "nat_digits n =
     (if n < 10 then [digit_unit n] else nat_digits (n div 10) @ [digit_unit (n mod 10)])"

declare nat_digits.simps [simp del]

definition Number_toString :: "int \<Rightarrow> js_string" where
  "Number_toString i = (if i < 0 then 0x2D # nat_digits (nat (- i)) else nat_digits (nat i))"

subsection \<open>The built-in \<open>Map\<close>\<close>

text \<open>
  A \<open>Map\<close> keeps its entries in insertion order: \<open>set\<close> on a key that is present replaces
  the value where the entry stands, \<open>set\<close> on a new key appends an entry, \<open>get\<close> returns
  \<open>undefined\<close> (here \<open>None\<close>) for a missing key, and \<open>values()\<close> lists the values in
  entry order.
\<close>

type_synonym ('k, 'v) js_map = "('k \<times> 'v) list"

fun Map_get :: "('k, 'v) js_map \<Rightarrow> 'k \<Rightarrow> 'v option" where
  "Map_get [] k = None"
| "Map_get ((k', v) # m) k = (if k' = k then Some v else Map_get m k)"

fun Map_set :: "'k \<Rightarrow> 'v \<Rightarrow> ('k, 'v) js_map \<Rightarrow> ('k, 'v) js_map" where
  "Map_set k v [] = [(k, v)]"
| "Map_set k v ((k', v') # m) = (if k' = k then (k, v) # m else (k', v') # Map_set k v m)"

definition Map_values :: "('k, 'v) js_map \<Rightarrow> 'v list" where
  "Map_values m = map snd m"

definition Map_keys :: "('k, 'v) js_map \<Rightarrow> 'k list" where
  "Map_keys m = map fst m"

section \<open>The connection registry: class \<open>ComposioService\<close>\<close>

datatype connection_status = Active | Expired | Revoked

record UserConnection =
  connectionId :: js_string
  userEmail :: js_string
  accessToken :: js_string
  refreshToken :: "js_string option"
  expiresAt :: int
  status :: connection_status

text \<open>
  Of the fields of the class only the private map \<open>userConnections\<close> is read or written by
  the methods modelled here. Every method takes the service and returns its result with
  the service afterwards. The readings of \<open>Date.now()\<close> a method takes are arguments, one
  per call of \<open>Date.now()\<close>, in the order the calls are made.
\<close>

record ComposioService =
  userConnections :: "(js_string, UserConnection) js_map"

definition new_ComposioService :: ComposioService where
  "new_ComposioService = \<lparr>userConnections = []\<rparr>"

text \<open>
  \<open>connectUserGoogleAccount\<close> reads the clock twice: \<open>now1\<close> for the connection id,
  \<open>now2\<close> for the expiry. \<open>expiresIn\<close> is optional; the test \<open>expiresIn ? ... : ...\<close>
  takes the default of 3600 seconds when it is \<open>undefined\<close> or \<open>0\<close>. Nothing in the
  \<open>try\<close> block can throw.
\<close>

definition connectUserGoogleAccount ::
  "ComposioService \<Rightarrow> int \<Rightarrow> int \<Rightarrow> js_string \<Rightarrow> js_string \<Rightarrow> js_string option \<Rightarrow> int option
     \<Rightarrow> js_string \<times> ComposioService" where
  "connectUserGoogleAccount svc now1 now2 email access refresh expiresIn =
     (let cid = js ''conn_'' @ email @ js ''_'' @ Number_toString now1;
          userConnection = \<lparr>connectionId = cid,
                            userEmail = email,
                            accessToken = access,
                            refreshToken = refresh,
                            expiresAt = (case expiresIn of
                                           None \<Rightarrow> now2 + (3600 * 1000)
                                         | Some n \<Rightarrow>
                                             if n \<noteq> 0 then now2 + (n * 1000)
                                             else now2 + (3600 * 1000)),
                            status = Active\<rparr>
      in (cid, svc\<lparr>userConnections := Map_set email userConnection (userConnections svc)\<rparr>))"

definition getUserConnectionId :: "ComposioService \<Rightarrow> js_string \<Rightarrow> js_string option \<times> ComposioService" where
  "getUserConnectionId svc email =
     (case Map_get (userConnections svc) email of
        None \<Rightarrow> (None, svc)
      | Some connection \<Rightarrow>
          (if connectionId connection = [] then None else Some (connectionId connection), svc))"

definition hasUserConnection :: "ComposioService \<Rightarrow> int \<Rightarrow> js_string \<Rightarrow> bool \<times> ComposioService" where
  "hasUserConnection svc now email =
     (case Map_get (userConnections svc) email of
        None \<Rightarrow> (False, svc)
      | Some connection \<Rightarrow> (status connection = Active \<and> expiresAt connection > now, svc))"

definition refreshUserConnection :: "ComposioService \<Rightarrow> int \<Rightarrow> js_string \<Rightarrow> bool \<times> ComposioService" where
  "refreshUserConnection svc now email =
     (case Map_get (userConnections svc) email of
        None \<Rightarrow> (False, svc)
      | Some connection \<Rightarrow>
          (if \<not> truthy (refreshToken connection) then (False, svc)
           else (True, svc\<lparr>userConnections :=
                   Map_set email (connection\<lparr>expiresAt := now + (3600 * 1000)\<rparr>)
                     (userConnections svc)\<rparr>)))"

definition removeUserConnection :: "ComposioService \<Rightarrow> js_string \<Rightarrow> bool \<times> ComposioService" where
  "removeUserConnection svc email =
     (case Map_get (userConnections svc) email of
        None \<Rightarrow> (False, svc)
      | Some connection \<Rightarrow>
          (True, svc\<lparr>userConnections :=
                   Map_set email (connection\<lparr>status := Revoked\<rparr>) (userConnections svc)\<rparr>))"

subsection \<open>\<open>getUserConnectionsSummary\<close>\<close>

text \<open>
  The two \<open>filter\<close> callbacks call \<open>Date.now()\<close> themselves, once for every record whose
  status is \<open>'active'\<close> (the \<open>&&\<close> does not evaluate its right side otherwise). A
  \<open>clock\<close> gives the reading returned by the \<open>k\<close>-th call of \<open>Date.now()\<close> during
  one run of the method; a callback takes the number of readings used so far and returns
  it updated.
\<close>

type_synonym clock = "nat \<Rightarrow> int"

fun Array_filter :: "('a \<Rightarrow> nat \<Rightarrow> bool \<times> nat) \<Rightarrow> 'a list \<Rightarrow> nat \<Rightarrow> 'a list \<times> nat" where
  "Array_filter p [] k = ([], k)"
| "Array_filter p (x # xs) k =
     (case p x k of (b, k') \<Rightarrow>
        (case Array_filter p xs k' of (ys, k'') \<Rightarrow> (if b then x # ys else ys, k'')))"

definition active_cb :: "clock \<Rightarrow> UserConnection \<Rightarrow> nat \<Rightarrow> bool \<times> nat" where
  "active_cb clk c k = (if status c = Active then (expiresAt c > clk k, Suc k) else (False, k))"

definition expired_cb :: "clock \<Rightarrow> UserConnection \<Rightarrow> nat \<Rightarrow> bool \<times> nat" where
  "expired_cb clk c k = (if status c = Active then (expiresAt c \<le> clk k, Suc k) else (False, k))"

record summary =
  total :: nat
  active :: nat
  expired :: nat

definition getUserConnectionsSummary :: "ComposioService \<Rightarrow> clock \<Rightarrow> summary \<times> ComposioService" where
  "getUserConnectionsSummary svc clk =
     (let connections = Map_values (userConnections svc) in
      (case Array_filter (active_cb clk) connections 0 of (act, k1) \<Rightarrow>
        (case Array_filter (expired_cb clk) connections k1 of (exp, k2) \<Rightarrow>
           (\<lparr>total = length connections, active = length act, expired = length exp\<rparr>, svc))))"

subsection \<open>Reachable registries\<close>

text \<open>
  \<open>userConnections\<close> is private and no method hands out a stored record, so the states of
  the registry are those a sequence of method calls produces from the empty map of a new
  service.
\<close>

datatype call =
    Connect int int js_string js_string "js_string option" "int option"
  | GetId js_string
  | HasConnection int js_string
  | Refresh int js_string
  | Remove js_string
  | Summary clock

fun exec :: "ComposioService \<Rightarrow> call \<Rightarrow> ComposioService" where
  "exec svc (Connect now1 now2 email access refresh expiresIn) =
     snd (connectUserGoogleAccount svc now1 now2 email access refresh expiresIn)"
| "exec svc (GetId email) = snd (getUserConnectionId svc email)"
| "exec svc (HasConnection now email) = snd (hasUserConnection svc now email)"
| "exec svc (Refresh now email) = snd (refreshUserConnection svc now email)"
| "exec svc (Remove email) = snd (removeUserConnection svc email)"
| "exec svc (Summary clk) = snd (getUserConnectionsSummary svc clk)"

definition run :: "call list \<Rightarrow> ComposioService" where
  "run calls = foldl exec new_ComposioService calls"

text \<open>The records of the registry filed under, or naming, a given email.\<close>

definition records_for :: "ComposioService \<Rightarrow> js_string \<Rightarrow> UserConnection list" where
  "records_for svc email =
     map snd (filter (\<lambda>(k, c). k = email \<or> userEmail c = email) (userConnections svc))"

fun is_connect_for :: "js_string \<Rightarrow> call \<Rightarrow> bool" where
  "is_connect_for email (Connect now1 now2 email' access refresh expiresIn) = (email' = email)"
| "is_connect_for email _ = False"

text \<open>
  What every reachable registry satisfies: keys are pairwise different, a record is
  filed under its own email, and no record has status \<open>'expired'\<close> (no method assigns it).
\<close>

definition registry_inv :: "ComposioService \<Rightarrow> bool" where
  "registry_inv svc =
     (distinct (Map_keys (userConnections svc)) \<and>
      (\<forall>(k, c) \<in> set (userConnections svc). userEmail c = k \<and> status c \<noteq> Expired))"

subsection \<open>Example registries\<close>

definition alice :: js_string where
  "alice = js ''a@b.com''"

definition bob :: js_string where
  "bob = js ''bob@x.org''"

text \<open>Connected at time 0 without \<open>expiresIn\<close>: the record expires at 3600000.\<close>

definition svc_hour :: ComposioService where
  "svc_hour =
     snd (connectUserGoogleAccount new_ComposioService 0 0 alice (js ''t1'') (Some (js ''r1'')) None)"

text \<open>Connected at time 0 with \<open>expiresIn = 7200\<close>: the record expires at 7200000.\<close>

definition svc_two_hours :: ComposioService where
  "svc_two_hours =
     snd (connectUserGoogleAccount new_ComposioService 0 0 alice (js ''t1'') (Some (js ''r1''))
            (Some 7200))"

text \<open>The one-hour registry after \<open>removeUserConnection\<close> for its email.\<close>

definition svc_revoked :: ComposioService where
  "svc_revoked = snd (removeUserConnection svc_hour alice)"

text \<open>The records and the summary of the registry a call sequence reaches.\<close>

abbreviation reachable_records :: "call list \<Rightarrow> UserConnection list" where
  "reachable_records calls \<equiv> Map_values (userConnections (run calls))"

abbreviation summary_of :: "call list \<Rightarrow> clock \<Rightarrow> summary" where
  "summary_of calls clk \<equiv> fst (getUserConnectionsSummary (run calls) clk)"

text \<open>Two users, the second one revoked.\<close>

definition two_users :: "call list" where
  "two_users = [Connect 0 0 alice (js ''t1'') (Some (js ''r1'')) None,
                Connect 0 0 bob (js ''t2'') None None,
                Remove bob]"

text \<open>A clock that reads 3599999 at the first call of \<open>Date.now()\<close> and 3600000 afterwards.\<close>

definition clk_tick :: clock where
  "clk_tick k = (if k = 0 then 3599999 else 3600000)"

section \<open>The API server\<close>

text \<open>
  A thrown value is an \<open>Error\<close> with its message (a \<open>TypeError\<close> is one), \<open>null\<close>,
  \<open>undefined\<close>, or some other value, given with what its \<open>message\<close> property holds
  (\<open>None\<close> for \<open>undefined\<close>). The outcome of a call that may throw is \<open>Inl\<close> of what
  it threw or \<open>Inr\<close> of what it returned. The calls into the tool-connector SDK and
  the LLM SDK are outside the program: the outcome of each is an argument of the
  function that makes the call.
\<close>

datatype thrown = Error js_string | Thrown_null | Thrown_undefined | Thrown_other "js_string option"

type_synonym 'a outcome = "thrown + 'a"

text \<open>
  The \<open>TypeError\<close> of reading the property \<open>message\<close> of \<open>null\<close> or \<open>undefined\<close>, with
  the message text of Node's engine.
\<close>

definition cannot_read_message :: "string \<Rightarrow> thrown" where
  "cannot_read_message what =
     Error (js (''Cannot read properties of '' @ what @ '' (reading '' @ [CHR 0x27] @ ''message''
                  @ [CHR 0x27] @ '')''))"

text \<open>
  \<open>error.message\<close> on a caught value: the message of an \<open>Error\<close>, the \<open>message\<close>
  property of another value, and a \<open>TypeError\<close> thrown in turn when the caught value is
  \<open>null\<close> or \<open>undefined\<close>.
\<close>

fun error_message :: "thrown \<Rightarrow> js_string option outcome" where
  "error_message (Error m) = Inr (Some m)"
| "error_message Thrown_null = Inl (cannot_read_message ''null'')"
| "error_message Thrown_undefined = Inl (cannot_read_message ''undefined'')"
| "error_message (Thrown_other m) = Inr m"

text \<open>\<open>error instanceof Error ? error.message : 'Unknown error'\<close>\<close>

fun error_text :: "thrown \<Rightarrow> js_string" where
  "error_text (Error m) = m"
| "error_text _ = js ''Unknown error''"

text \<open>An optional string inside a template literal.\<close>

fun interpolate :: "js_string option \<Rightarrow> js_string" where
  "interpolate None = js ''undefined''"
| "interpolate (Some s) = s"

subsection \<open>The entity id of a user\<close>

text \<open>
  \<open>userEmail.replace(/[^a-zA-Z0-9]/g, '_').toLowerCase()\<close>. The pattern has no \<open>u\<close>
  flag, so it is matched against single code units: every code unit outside the three
  ASCII ranges becomes \<open>_\<close> (0x5F). What reaches \<open>toLowerCase\<close> is therefore ASCII,
  where lower-casing adds 0x20 to \<open>A\<close>..\<open>Z\<close> and leaves every other code unit alone;
  \<open>lower_unit\<close> is the case mapping on that range only.
\<close>

definition alnum :: "16 word \<Rightarrow> bool" where
  "alnum c = ((0x61 \<le> c \<and> c \<le> 0x7A) \<or> (0x41 \<le> c \<and> c \<le> 0x5A) \<or> (0x30 \<le> c \<and> c \<le> 0x39))"

definition sanitize_unit :: "16 word \<Rightarrow> 16 word" where
  "sanitize_unit c = (if alnum c then c else 0x5F)"

definition replace_non_alnum :: "js_string \<Rightarrow> js_string" where
  "replace_non_alnum s = map sanitize_unit s"

definition lower_unit :: "16 word \<Rightarrow> 16 word" where
  "lower_unit c = (if 0x41 \<le> c \<and> c \<le> 0x5A then c + 0x20 else c)"

definition toLowerCase :: "js_string \<Rightarrow> js_string" where
  "toLowerCase s = map lower_unit s"

definition entityId_of :: "js_string \<Rightarrow> js_string" where
  "entityId_of email = toLowerCase (replace_non_alnum email)"

text \<open>The characters an entity id is made of: \<open>a\<close>..\<open>z\<close>, \<open>0\<close>..\<open>9\<close> and \<open>_\<close>.\<close>

definition entity_unit :: "16 word \<Rightarrow> bool" where
  "entity_unit c = ((0x61 \<le> c \<and> c \<le> 0x7A) \<or> (0x30 \<le> c \<and> c \<le> 0x39) \<or> c = 0x5F)"

subsection \<open>The two module-level maps\<close>

datatype link_status = Link_active | Link_pending

record connection_data =
  cd_entityId :: js_string
  cd_connectionId :: js_string
  cd_redirectUrl :: "js_string option"
  cd_status :: link_status
  cd_connectedAt :: "js_string option"
  cd_createdAt :: "js_string option"

text \<open>
  \<open>server_connections\<close> is the server's \<open>userConnections\<close> (the name is taken by the
  registry of \<open>ComposioService\<close>), \<open>userEntities\<close> maps an email to its entity id.
\<close>

record server =
  server_connections :: "(js_string, connection_data) js_map"
  userEntities :: "(js_string, js_string) js_map"

definition new_server :: server where
  "new_server = \<lparr>server_connections = [], userEntities = []\<rparr>"

subsection \<open>\<open>setupUserConnectionIfNotExists\<close>\<close>

text \<open>
  The outcomes of \<open>toolset.client.getEntity\<close>, of \<open>entity.getConnection\<close> (the id of the
  connection found) and of \<open>entity.initiateConnection\<close> (id and redirect URL of the new
  connection), and the value of \<open>new Date().toISOString()\<close>.
\<close>

record setup_ext =
  getEntity_outcome :: "unit outcome"
  getConnection_outcome :: "js_string outcome"
  initiateConnection_outcome :: "(js_string \<times> js_string option) outcome"
  iso_now :: js_string

datatype setup_result = Existing_connection js_string | New_connection js_string "js_string option"

definition setupUserConnectionIfNotExists ::
  "server \<Rightarrow> setup_ext \<Rightarrow> js_string \<Rightarrow> setup_result outcome \<times> server" where
  "setupUserConnectionIfNotExists srv ext email =
     (let entityId = entityId_of email;
          srv1 = srv\<lparr>userEntities := Map_set email entityId (userEntities srv)\<rparr>
      in case getEntity_outcome ext of
           Inl e \<Rightarrow> (Inl e, srv1)
         | Inr entity \<Rightarrow>
             (case getConnection_outcome ext of
                Inr connection_id \<Rightarrow>
                  (Inr (Existing_connection connection_id),
                   srv1\<lparr>server_connections := Map_set email
                          \<lparr>cd_entityId = entityId, cd_connectionId = connection_id,
                           cd_redirectUrl = None, cd_status = Link_active,
                           cd_connectedAt = Some (iso_now ext), cd_createdAt = None\<rparr>
                          (server_connections srv1)\<rparr>)
              | Inl error \<Rightarrow>
                  (case initiateConnection_outcome ext of
                     Inl e \<Rightarrow> (Inl e, srv1)
                   | Inr (new_id, redirectUrl) \<Rightarrow>
                       (Inr (New_connection new_id redirectUrl),
                        srv1\<lparr>server_connections := Map_set email
                               \<lparr>cd_entityId = entityId, cd_connectionId = new_id,
                                cd_redirectUrl = redirectUrl, cd_status = Link_pending,
                                cd_connectedAt = None, cd_createdAt = Some (iso_now ext)\<rparr>
                               (server_connections srv1)\<rparr>))))"

subsection \<open>\<open>getUserTools\<close> and \<open>checkConnectionStatus\<close>\<close>

text \<open>
  The tools object is represented by the list of its keys; \<open>None\<close> is a \<open>null\<close> or
  \<open>undefined\<close> result. \<open>getTools_outcome\<close> is the outcome of \<open>toolset.getTools\<close>.
\<close>

type_synonym tools = "js_string list option"

definition getUserTools :: "server \<Rightarrow> tools outcome \<Rightarrow> js_string \<Rightarrow> tools outcome" where
  "getUserTools srv getTools_outcome email =
     (if \<not> truthy (Map_get (userEntities srv) email)
      then Inl (Error (js ''No entity found for user: '' @ email))
      else getTools_outcome)"

datatype check_status = St_not_found | St_active | St_pending | St_error

record check_result =
  cr_status :: check_status
  cr_message :: "js_string option"
  toolsAvailable :: "nat option"

text \<open>
  \<open>checkConnectionStatus\<close> catches what \<open>getUserTools\<close> throws and reads
  \<open>error.message\<close> in the \<open>catch\<close> block; when that read throws, the function itself
  throws and no status is resolved.
\<close>

definition checkConnectionStatus ::
  "server \<Rightarrow> tools outcome \<Rightarrow> js_string \<Rightarrow> check_result outcome \<times> server" where
  "checkConnectionStatus srv getTools_outcome email =
     (case Map_get (server_connections srv) email of
        None \<Rightarrow>
          (Inr \<lparr>cr_status = St_not_found, cr_message = Some (js ''No connection found''),
                toolsAvailable = None\<rparr>, srv)
      | Some connectionData \<Rightarrow>
          (if \<not> truthy (Map_get (userEntities srv) email)
           then (Inr \<lparr>cr_status = St_not_found, cr_message = Some (js ''No connection found''),
                      toolsAvailable = None\<rparr>, srv)
           else (case getUserTools srv getTools_outcome email of
                   Inl error \<Rightarrow>
                     (case error_message error of
                        Inl type_error \<Rightarrow> (Inl type_error, srv)
                      | Inr m \<Rightarrow>
                          (Inr \<lparr>cr_status = St_error, cr_message = m, toolsAvailable = None\<rparr>,
                           srv))
                 | Inr None \<Rightarrow>
                     (Inr \<lparr>cr_status = St_pending,
                           cr_message = Some (js ''Connection pending authentication''),
                           toolsAvailable = None\<rparr>, srv)
                 | Inr (Some keys) \<Rightarrow>
                     (if length keys > 0
                      then (Inr \<lparr>cr_status = St_active,
                                 cr_message = Some (js ''Connection is active''),
                                 toolsAvailable = Some (length keys)\<rparr>,
                            srv\<lparr>server_connections := Map_set email
                                  (connectionData\<lparr>cd_status := Link_active\<rparr>)
                                  (server_connections srv)\<rparr>)
                      else (Inr \<lparr>cr_status = St_pending,
                                 cr_message = Some (js ''Connection pending authentication''),
                                 toolsAvailable = None\<rparr>, srv)))))"

subsection \<open>\<open>POST /api/ai/send-message\<close>\<close>

text \<open>
  The request body carries \<open>message\<close>, \<open>userEmail\<close> and an optional \<open>context\<close>. The
  context only feeds the text of the prompt (it cannot make the handler fail when it has
  the documented shape), and what the LLM answers is an outcome given from outside, so
  the prompt text is left out of the model.
\<close>

record request =
  req_message :: "js_string option"
  req_userEmail :: "js_string option"

text \<open>
  The outcomes of the external calls the handler can make, in the order it makes them:
  \<open>toolset.getTools\<close> inside \<open>checkConnectionStatus\<close>, \<open>toolset.getTools\<close> for the
  dispatch, the first \<open>generateText\<close> (tool calls and tool results, as JSON text) and the
  second \<open>generateText\<close> (the summary text).
\<close>

record dispatch_ext =
  tools_at_check :: "tools outcome"
  tools_at_dispatch :: "tools outcome"
  generateText_act :: "(js_string \<times> js_string) outcome"
  generateText_summary :: "js_string outcome"

text \<open>The \<open>response\<close> object of a reply; \<open>needsConnection\<close> is false where the property is absent.\<close>

record chat_response =
  rsp_message :: js_string
  needsConnection :: bool
  rsp_redirectUrl :: "js_string option"
  toolCalls :: "js_string option"
  toolResults :: "js_string option"
  rsp_userEmail :: js_string

datatype http_response =
    Json_200 chat_response
  | Json_400 js_string
  | Json_500 js_string

text \<open>
  What one request does: the reply, the number of \<open>generateText\<close> calls started, and the
  server afterwards.
\<close>

record dispatch_result =
  reply :: http_response
  llm_calls :: nat
  server_after :: server

definition msg_not_found :: js_string where
  "msg_not_found = js (''Hi! To manage your Google Calendar with AI, I need to connect to your ''
     @ ''account first. Please use the '' @ [CHR 0x22] @ ''Setup Connection'' @ [CHR 0x22]
     @ '' button to authenticate with Google Calendar through Composio.'')"

definition msg_pending :: js_string where
  "msg_pending = js (''Hi! Your Google Calendar connection is pending. Please complete the ''
     @ ''authentication process using the provided link.'')"

definition msg_error :: "js_string option \<Rightarrow> js_string" where
  "msg_error m = js (''There'' @ [CHR 0x27] @ ''s an issue with your Google Calendar connection: '')
     @ interpolate m @ js ''. Please try reconnecting.''"

definition needs_connection :: "js_string \<Rightarrow> js_string option \<Rightarrow> js_string \<Rightarrow> chat_response" where
  "needs_connection text url email =
     \<lparr>rsp_message = text, needsConnection = True, rsp_redirectUrl = url,
      toolCalls = None, toolResults = None, rsp_userEmail = email\<rparr>"

definition dispatch :: "server \<Rightarrow> dispatch_ext \<Rightarrow> js_string \<Rightarrow> dispatch_result" where
  "dispatch srv ext email =
     (case checkConnectionStatus srv (tools_at_check ext) email of
        (Inl error, srv1) \<Rightarrow>
          \<lparr>reply = Json_500 (error_text error), llm_calls = 0, server_after = srv1\<rparr>
      | (Inr connectionStatus, srv1) \<Rightarrow>
          if cr_status connectionStatus = St_not_found then
            \<lparr>reply = Json_200 (needs_connection msg_not_found None email),
             llm_calls = 0, server_after = srv1\<rparr>
          else if cr_status connectionStatus = St_pending then
            \<lparr>reply = Json_200 (needs_connection msg_pending
                      (case Map_get (server_connections srv1) email of
                         None \<Rightarrow> None | Some connectionData \<Rightarrow> cd_redirectUrl connectionData)
                      email),
             llm_calls = 0, server_after = srv1\<rparr>
          else if cr_status connectionStatus = St_error then
            \<lparr>reply = Json_200 (needs_connection (msg_error (cr_message connectionStatus)) None
                      email),
             llm_calls = 0, server_after = srv1\<rparr>
          else
            (case getUserTools srv1 (tools_at_dispatch ext) email of
               Inl error \<Rightarrow> \<lparr>reply = Json_500 (error_text error), llm_calls = 0, server_after = srv1\<rparr>
             | Inr tools \<Rightarrow>
                 (case generateText_act ext of
                    Inl error \<Rightarrow>
                      \<lparr>reply = Json_500 (error_text error), llm_calls = 1, server_after = srv1\<rparr>
                  | Inr (calls, results) \<Rightarrow>
                      (case generateText_summary ext of
                         Inl error \<Rightarrow>
                           \<lparr>reply = Json_500 (error_text error), llm_calls = 2,
                            server_after = srv1\<rparr>
                       | Inr text \<Rightarrow>
                           \<lparr>reply = Json_200
                              \<lparr>rsp_message = text, needsConnection = False,
                               rsp_redirectUrl = None, toolCalls = Some calls,
                               toolResults = Some results, rsp_userEmail = email\<rparr>,
                            llm_calls = 2, server_after = srv1\<rparr>))))"

definition send_message :: "server \<Rightarrow> dispatch_ext \<Rightarrow> request \<Rightarrow> dispatch_result" where
  "send_message srv ext req =
     (if \<not> truthy (req_message req) then
        \<lparr>reply = Json_400 (js ''Message is required''), llm_calls = 0, server_after = srv\<rparr>
      else case req_userEmail req of
        None \<Rightarrow>
          \<lparr>reply = Json_400 (js ''User email is required for personalized calendar management''),
           llm_calls = 0, server_after = srv\<rparr>
      | Some email \<Rightarrow>
          if email = [] then
            \<lparr>reply = Json_400 (js ''User email is required for personalized calendar management''),
             llm_calls = 0, server_after = srv\<rparr>
          else dispatch srv ext email)"

text \<open>
  The status, and the message with it, that the handler resolves for a request that
  passes validation; none when \<open>checkConnectionStatus\<close> throws.
\<close>

definition resolved_status :: "server \<Rightarrow> dispatch_ext \<Rightarrow> js_string \<Rightarrow> check_status option" where
  "resolved_status srv ext email =
     (case fst (checkConnectionStatus srv (tools_at_check ext) email) of
        Inl error \<Rightarrow> None
      | Inr connectionStatus \<Rightarrow> Some (cr_status connectionStatus))"

definition resolved_message :: "server \<Rightarrow> dispatch_ext \<Rightarrow> js_string \<Rightarrow> js_string option" where
  "resolved_message srv ext email =
     (case fst (checkConnectionStatus srv (tools_at_check ext) email) of
        Inl error \<Rightarrow> None
      | Inr connectionStatus \<Rightarrow> cr_message connectionStatus)"

subsection \<open>Example requests\<close>

definition book_lunch :: request where
  "book_lunch = \<lparr>req_message = Some (js ''book lunch''), req_userEmail = Some alice\<rparr>"

text \<open>Every external call succeeds: the connector has two tools, the LLM answers.\<close>

definition all_fine :: dispatch_ext where
  "all_fine = \<lparr>tools_at_check = Inr (Some [js ''t1'', js ''t2'']),
               tools_at_dispatch = Inr (Some [js ''t1'', js ''t2'']),
               generateText_act = Inr (js ''[]'', js ''[]''),
               generateText_summary = Inr (js ''Done.'')\<rparr>"

definition setup_found :: setup_ext where
  "setup_found = \<lparr>getEntity_outcome = Inr (), getConnection_outcome = Inr (js ''c1''),
                  initiateConnection_outcome = Inl Thrown_null, iso_now = js ''2025''\<rparr>"

text \<open>The connector rejects with an \<open>Error\<close>, and with \<open>null\<close>.\<close>

definition tools_fail :: dispatch_ext where
  "tools_fail = all_fine\<lparr>tools_at_check := Inl (Error (js ''timeout''))\<rparr>"

definition tools_reject_null :: dispatch_ext where
  "tools_reject_null = all_fine\<lparr>tools_at_check := Inl Thrown_null\<rparr>"

text \<open>The server after \<open>setupUserConnectionIfNotExists\<close> found a connection for \<open>a@b.com\<close>.\<close>

definition srv_alice :: server where
  "srv_alice = snd (setupUserConnectionIfNotExists new_server setup_found alice)"

section \<open>The OAuth callback component\<close>

datatype callback_status = Cb_processing | Cb_success | Cb_error

record CallbackState =
  cb_status :: callback_status
  cb_message :: js_string
  cb_details :: "js_string option"

text \<open>
  The redirect URL: \<open>window.location.href\<close> together with the query parameters it
  carries, in the order they appear.
\<close>

record redirect_url =
  href :: js_string
  searchParams :: "(js_string \<times> js_string) list"

text \<open>
  The component calls three functions that are not among the sources:
  \<open>oauthService.handleCallback\<close>, \<open>oauthService.exchangeCodeForTokens\<close> and
  \<open>googleCalendarService.connectToServerIntegration\<close>. They are parameters of the model,
  each giving the outcome of the call for its arguments; the component never looks into
  the tokens, whose type is left open.
\<close>

record 'tok services =
  handleCallback :: "redirect_url \<Rightarrow> (js_string \<times> js_string) option outcome"
  exchangeCodeForTokens :: "js_string \<Rightarrow> js_string \<Rightarrow> 'tok outcome"
  connectToServerIntegration :: "js_string \<Rightarrow> unit outcome"

text \<open>
  What the step that notifies the server did: it is skipped without a user email, and a
  failure of it is only written to the console.
\<close>

datatype bridge_log = Bridge_skipped | Bridge_connected | Bridge_failed thrown

record chat_message =
  chat_id :: js_string
  chat_type :: js_string
  chat_content :: js_string
  chat_timestamp :: js_string

text \<open>
  One run of \<open>handleOAuthCallback\<close>: the values \<open>callbackState\<close> takes, from the initial
  one of \<open>useState\<close> on, the server notification, the chat messages dispatched and the
  delay of the redirect back to the application. \<open>dispatch\<close> and \<open>setTimeout\<close> do not
  throw.
\<close>

record callback_run =
  states :: "CallbackState list"
  bridge :: bridge_log
  chat_messages :: "chat_message list"
  redirect_delay :: nat

definition initial_state :: CallbackState where
  "initial_state =
     \<lparr>cb_status = Cb_processing, cb_message = js ''Processing authentication...'',
      cb_details = None\<rparr>"

definition validating :: CallbackState where
  "validating =
     \<lparr>cb_status = Cb_processing, cb_message = js ''Validating authorization code...'',
      cb_details = None\<rparr>"

definition exchanging :: CallbackState where
  "exchanging =
     \<lparr>cb_status = Cb_processing,
      cb_message = js ''Exchanging authorization code for access token...'',
      cb_details = None\<rparr>"

definition configuring :: CallbackState where
  "configuring =
     \<lparr>cb_status = Cb_processing, cb_message = js ''Setting up AI integration...'',
      cb_details = None\<rparr>"

definition succeeded :: CallbackState where
  "succeeded =
     \<lparr>cb_status = Cb_success, cb_message = js ''Authentication successful!'',
      cb_details = Some (js
        ''Google Calendar is now connected with AI integration. Redirecting...'')\<rparr>"

text \<open>The \<open>catch\<close> block; \<open>now\<close> is \<open>Date.now()\<close>, \<open>stamp\<close> is \<open>new Date().toISOString()\<close>.\<close>

definition caught :: "CallbackState list \<Rightarrow> thrown \<Rightarrow> int \<Rightarrow> js_string \<Rightarrow> callback_run" where
  "caught trace error now stamp =
     \<lparr>states = trace @
        [\<lparr>cb_status = Cb_error, cb_message = js ''Authentication failed'',
          cb_details = Some (case error of Error m \<Rightarrow> m
                             | _ \<Rightarrow> js ''Unknown error occurred'')\<rparr>],
      bridge = Bridge_skipped,
      chat_messages =
        [\<lparr>chat_id = Number_toString now, chat_type = js ''ai'',
          chat_content = [0x274C] @ js '' Authentication failed: '' @ error_text error
                           @ js ''. Please try connecting again.'',
          chat_timestamp = stamp\<rparr>],
      redirect_delay = 5000\<rparr>"

definition success_content :: js_string where
  "success_content = [0xD83C, 0xDF89] @ js ('' Perfect! Google Calendar is now connected with ''
     @ ''full editing permissions and AI integration. Your calendar events will sync ''
     @ ''automatically and I can now directly create, update, and manage events in your ''
     @ ''Google Calendar using natural language commands!'')"

definition notify_server :: "'tok services \<Rightarrow> js_string option \<Rightarrow> bridge_log" where
  "notify_server svc user_email =
     (case user_email of
        None \<Rightarrow> Bridge_skipped
      | Some email \<Rightarrow>
          if email = [] then Bridge_skipped
          else (case connectToServerIntegration svc email of
                  Inr ok \<Rightarrow> Bridge_connected
                | Inl error \<Rightarrow> Bridge_failed error))"

definition handleOAuthCallback ::
  "'tok services \<Rightarrow> js_string option \<Rightarrow> int \<Rightarrow> js_string \<Rightarrow> redirect_url \<Rightarrow> callback_run" where
  "handleOAuthCallback svc user_email now stamp currentUrl =
     (case handleCallback svc currentUrl of
        Inl error \<Rightarrow> caught [initial_state, validating] error now stamp
      | Inr None \<Rightarrow>
          caught [initial_state, validating] (Error (js ''Failed to process OAuth callback''))
            now stamp
      | Inr (Some (code, stateParam)) \<Rightarrow>
          (case exchangeCodeForTokens svc code stateParam of
             Inl error \<Rightarrow> caught [initial_state, validating, exchanging] error now stamp
           | Inr tokens \<Rightarrow>
               \<lparr>states = [initial_state, validating, exchanging, configuring, succeeded],
                bridge = notify_server svc user_email,
                chat_messages =
                  [\<lparr>chat_id = Number_toString now, chat_type = js ''ai'',
                    chat_content = success_content, chat_timestamp = stamp\<rparr>],
                redirect_delay = 2000\<rparr>))"

text \<open>The state the component ends in, and the statuses it goes through.\<close>

definition final_status :: "callback_run \<Rightarrow> callback_status" where
  "final_status r = cb_status (last (states r))"

definition statuses :: "callback_run \<Rightarrow> callback_status list" where
  "statuses r = map cb_status (states r)"

text \<open>
  Modelled from the spec: \<open>oauthService.handleCallback\<close> is not among the sources. The
  spec has the handler parse the \<open>code\<close> and \<open>state\<close> query parameters of the redirect URL
  and fail when either is absent; the component tests the result for \<open>null\<close>, so the
  failure is the result \<open>null\<close>.
\<close>

definition spec_handleCallback :: "redirect_url \<Rightarrow> (js_string \<times> js_string) option outcome" where
  "spec_handleCallback url =
     (case Map_get (searchParams url) (js ''code'') of
        None \<Rightarrow> Inr None
      | Some code \<Rightarrow>
          (case Map_get (searchParams url) (js ''state'') of
             None \<Rightarrow> Inr None
           | Some stateParam \<Rightarrow> Inr (Some (code, stateParam))))"

subsection \<open>Example runs\<close>

text \<open>\<open>https://app/callback?code=ABC&state=XYZ\<close> and the same URL without \<open>state\<close>.\<close>

definition url_ok :: redirect_url where
  "url_ok = \<lparr>href = js ''https://app/callback?code=ABC&state=XYZ'',
             searchParams = [(js ''code'', js ''ABC''), (js ''state'', js ''XYZ'')]\<rparr>"

definition url_no_state :: redirect_url where
  "url_no_state = \<lparr>href = js ''https://app/callback?code=ABC'',
                   searchParams = [(js ''code'', js ''ABC'')]\<rparr>"

text \<open>The token exchange succeeds, the server cannot be reached.\<close>

definition bridge_down :: "js_string services" where
  "bridge_down =
     \<lparr>handleCallback = (\<lambda>url. Inr (Some (js ''ABC'', js ''XYZ''))),
      exchangeCodeForTokens = (\<lambda>code stateParam. Inr (js ''t1'')),
      connectToServerIntegration = (\<lambda>email. Inl (Error (js ''Failed to fetch'')))\<rparr>"

section \<open>Properties of the registry\<close>

lemma Map_get_set: "Map_get (Map_set k v m) k' = (if k' = k then Some v else Map_get m k')"
  by (induction m) auto

lemma Map_keys_set:
  "map fst (Map_set k v m) = (if k \<in> fst ` set m then map fst m else map fst m @ [k])"
  by (induction m) force+

lemma Map_set_subset: "set (Map_set k v m) \<subseteq> insert (k, v) (set m)"
  by (induction m) (auto split: if_splits)

lemma Map_get_Some_mem: "Map_get m k = Some v \<Longrightarrow> (k, v) \<in> set m"
  by (induction m) (auto split: if_splits)

lemma Map_get_None_iff: "Map_get m k = None \<longleftrightarrow> k \<notin> fst ` set m"
  by (induction m) force+

lemma length_Map_set:
  "length (Map_set k v m) = (if k \<in> fst ` set m then length m else Suc (length m))"
  by (induction m) force+

lemma distinct_Map_set: "distinct (map fst m) \<Longrightarrow> distinct (map fst (Map_set k v m))"
  by (simp add: Map_keys_set)

lemma run_snoc: "run (calls @ [c]) = exec (run calls) c"
  by (simp add: run_def)

lemma inv_new: "registry_inv new_ComposioService"
  by (simp add: registry_inv_def new_ComposioService_def Map_keys_def)

lemma inv_Map_set:
  assumes "registry_inv svc" and "userEmail c = k" and "status c \<noteq> Expired"
  shows "registry_inv (svc\<lparr>userConnections := Map_set k c (userConnections svc)\<rparr>)"
proof -
  have "distinct (map fst (Map_set k c (userConnections svc)))"
    using assms(1) by (simp add: registry_inv_def Map_keys_def distinct_Map_set)
  moreover have "\<forall>(k', c') \<in> set (Map_set k c (userConnections svc)). userEmail c' = k' \<and> status c' \<noteq> Expired"
    using assms Map_set_subset [of k c "userConnections svc"]
    by (auto simp: registry_inv_def)
  ultimately show ?thesis
    by (simp add: registry_inv_def Map_keys_def)
qed

lemma inv_lookup:
  "registry_inv svc \<Longrightarrow> Map_get (userConnections svc) k = Some c \<Longrightarrow> userEmail c = k \<and> status c \<noteq> Expired"
  by (auto simp: registry_inv_def dest: Map_get_Some_mem)

lemma inv_connect:
  "registry_inv svc \<Longrightarrow> registry_inv (snd (connectUserGoogleAccount svc n1 n2 e a r x))"
  by (simp add: connectUserGoogleAccount_def Let_def inv_Map_set)

lemma inv_refresh:
  assumes "registry_inv svc"
  shows "registry_inv (snd (refreshUserConnection svc now e))"
proof (cases "Map_get (userConnections svc) e")
  case None
  with assms show ?thesis by (simp add: refreshUserConnection_def)
next
  case (Some c)
  with assms have "userEmail c = e" "status c \<noteq> Expired"
    using inv_lookup by blast+
  then have "registry_inv (svc\<lparr>userConnections :=
      Map_set e (c\<lparr>expiresAt := now + (3600 * 1000)\<rparr>) (userConnections svc)\<rparr>)"
    using assms by (intro inv_Map_set) simp_all
  with Some assms show ?thesis by (simp add: refreshUserConnection_def)
qed

lemma inv_remove:
  assumes "registry_inv svc"
  shows "registry_inv (snd (removeUserConnection svc e))"
proof (cases "Map_get (userConnections svc) e")
  case None
  with assms show ?thesis by (simp add: removeUserConnection_def)
next
  case (Some c)
  with assms have "userEmail c = e"
    using inv_lookup by blast
  then have "registry_inv (svc\<lparr>userConnections :=
      Map_set e (c\<lparr>status := Revoked\<rparr>) (userConnections svc)\<rparr>)"
    using assms by (intro inv_Map_set) simp_all
  with Some show ?thesis by (simp add: removeUserConnection_def)
qed

lemma snd_summary: "snd (getUserConnectionsSummary svc clk) = svc"
  by (simp add: getUserConnectionsSummary_def Let_def split: prod.splits)

lemma inv_exec: "registry_inv svc \<Longrightarrow> registry_inv (exec svc c)"
  by (cases c)
    (simp_all add: inv_connect inv_refresh inv_remove snd_summary hasUserConnection_def
       getUserConnectionId_def split: option.splits)

lemma inv_run: "registry_inv (run calls)"
proof (induction calls rule: rev_induct)
  case Nil
  show ?case by (simp add: run_def inv_new)
next
  case (snoc c calls)
  then show ?case by (simp add: run_snoc inv_exec)
qed

lemma records_for_lookup:
  assumes "distinct (map fst m)" and "\<forall>(k, c) \<in> set m. userEmail c = k"
  shows "map snd (filter (\<lambda>(k, c). k = e \<or> userEmail c = e) m) =
           (case Map_get m e of None \<Rightarrow> [] | Some c \<Rightarrow> [c])"
  using assms
proof (induction m)
  case Nil
  show ?case by simp
next
  case (Cons p m)
  obtain k c where p: "p = (k, c)" by (cases p)
  show ?case
  proof (cases "k = e")
    case True
    with Cons.prems p have "e \<notin> fst ` set m" by auto
    then have "filter (\<lambda>(k, c). k = e \<or> userEmail c = e) m = []"
      using Cons.prems(2) by (fastforce simp: filter_empty_conv image_iff)
    with True p show ?thesis by simp
  next
    case False
    with Cons p show ?thesis by auto
  qed
qed

lemma records_for_inv:
  "registry_inv svc \<Longrightarrow>
     records_for svc e = (case Map_get (userConnections svc) e of None \<Rightarrow> [] | Some c \<Rightarrow> [c])"
  unfolding records_for_def registry_inv_def Map_keys_def
  by (rule records_for_lookup) auto

subsection \<open>The example registries, evaluated\<close>

lemma alice_neq_bob: "alice \<noteq> bob"
  by (simp add: alice_def bob_def js_def)

lemma svc_hour_eq:
  "userConnections svc_hour =
     [(alice, \<lparr>connectionId = js ''conn_a@b.com_0'', userEmail = alice, accessToken = js ''t1'',
               refreshToken = Some (js ''r1''), expiresAt = 3600000, status = Active\<rparr>)]"
  by (simp add: svc_hour_def Let_def connectUserGoogleAccount_def new_ComposioService_def
      Number_toString_def nat_digits.simps digit_unit_def alice_def js_def)

lemma svc_two_hours_eq:
  "userConnections svc_two_hours =
     [(alice, \<lparr>connectionId = js ''conn_a@b.com_0'', userEmail = alice, accessToken = js ''t1'',
               refreshToken = Some (js ''r1''), expiresAt = 7200000, status = Active\<rparr>)]"
  by (simp add: svc_two_hours_def Let_def connectUserGoogleAccount_def new_ComposioService_def
      Number_toString_def nat_digits.simps digit_unit_def alice_def js_def)

lemma svc_hour_run: "svc_hour = run [Connect 0 0 alice (js ''t1'') (Some (js ''r1'')) None]"
  by (simp add: svc_hour_def run_def)

text \<open>
  C3: the activity check answers true exactly for an email whose record exists, has
  status active and expires strictly after the clock reading; once the expiry is not in
  the future the answer is false; and the service after the call is the service before.
\<close>

theorem hasUserConnection_iff:
  "hasUserConnection svc now email =
     ((\<exists>c. Map_get (userConnections svc) email = Some c \<and> status c = Active \<and> expiresAt c > now), svc)
   \<and> ((\<exists>c. Map_get (userConnections svc) email = Some c \<and> expiresAt c \<le> now)
        \<longrightarrow> \<not> fst (hasUserConnection svc now email))"
  by (auto simp: hasUserConnection_def split: option.splits)

theorem hasUserConnection_iff_witness:
  "fst (hasUserConnection svc_hour 3599999 alice)
   \<and> \<not> fst (hasUserConnection svc_hour 3600000 alice)
   \<and> snd (hasUserConnection svc_hour 3600000 alice) = svc_hour"
  using hasUserConnection_iff [of svc_hour 3599999 alice]
    hasUserConnection_iff [of svc_hour 3600000 alice]
  by (simp add: svc_hour_eq)

text \<open>
  C5: in every state a sequence of method calls reaches from a new service, the keys of
  the registry are pairwise different and at most one record is filed under, or names, a
  given email. After \<open>connectUserGoogleAccount\<close> (which cannot fail) exactly one record
  exists for the email, it is the record just built and its status is active; when the
  email already had a record the number of entries does not change, and the records of
  all other emails are as before.
\<close>

theorem registry_one_record_per_email:
  "distinct (Map_keys (userConnections (run calls)))
   \<and> length (records_for (run calls) e) \<le> 1
   \<and> (\<exists>c. records_for (run (calls @ [Connect now1 now2 email access refresh expiresIn])) email = [c]
          \<and> Map_get (userConnections (run (calls @ [Connect now1 now2 email access refresh expiresIn]))) email = Some c
          \<and> status c = Active \<and> userEmail c = email \<and> accessToken c = access
          \<and> refreshToken c = refresh)
   \<and> (Map_get (userConnections (run calls)) email \<noteq> None \<longrightarrow>
         length (userConnections (run (calls @ [Connect now1 now2 email access refresh expiresIn])))
           = length (userConnections (run calls)))
   \<and> (\<forall>e'. e' \<noteq> email \<longrightarrow>
         Map_get (userConnections (run (calls @ [Connect now1 now2 email access refresh expiresIn]))) e'
           = Map_get (userConnections (run calls)) e')"
proof -
  define svc where "svc = run calls"
  define svc' where "svc' = run (calls @ [Connect now1 now2 email access refresh expiresIn])"
  have step: "svc' = snd (connectUserGoogleAccount svc now1 now2 email access refresh expiresIn)"
    by (simp add: svc'_def svc_def run_snoc)
  have inv: "registry_inv svc" unfolding svc_def by (rule inv_run)
  have inv': "registry_inv svc'" unfolding svc'_def by (rule inv_run)
  have 1: "distinct (Map_keys (userConnections svc))"
    using inv by (simp add: registry_inv_def)
  have 2: "length (records_for svc e) \<le> 1"
    by (simp add: records_for_inv [OF inv] split: option.splits)
  have 3: "\<exists>c. records_for svc' email = [c] \<and> Map_get (userConnections svc') email = Some c
              \<and> status c = Active \<and> userEmail c = email \<and> accessToken c = access
              \<and> refreshToken c = refresh"
    by (simp add: records_for_inv [OF inv'])
       (simp add: step connectUserGoogleAccount_def Let_def Map_get_set)
  have 4: "Map_get (userConnections svc) email \<noteq> None \<longrightarrow>
             length (userConnections svc') = length (userConnections svc)"
    by (simp add: step connectUserGoogleAccount_def Let_def length_Map_set Map_get_None_iff)
  have 5: "\<forall>e'. e' \<noteq> email \<longrightarrow> Map_get (userConnections svc') e' = Map_get (userConnections svc) e'"
    by (simp add: step connectUserGoogleAccount_def Let_def Map_get_set)
  from 1 2 3 4 5 show ?thesis unfolding svc_def svc'_def by blast
qed

theorem registry_one_record_per_email_witness:
  "length (records_for svc_hour alice) \<le> 1
   \<and> length (userConnections (run [Connect 0 0 alice (js ''t1'') (Some (js ''r1'')) None,
                                      Connect 5 5 alice (js ''t2'') None None])) = 1
   \<and> map accessToken (records_for (run [Connect 0 0 alice (js ''t1'') (Some (js ''r1'')) None,
                                      Connect 5 5 alice (js ''t2'') None None]) alice) = [js ''t2'']"
  using registry_one_record_per_email
    [of "[Connect 0 0 alice (js ''t1'') (Some (js ''r1'')) None]" alice 5 5 alice "js ''t2''" None None]
  by (auto simp: svc_hour_run [symmetric] svc_hour_eq)

lemma nonconnect_keeps_revoked:
  assumes "Map_get (userConnections svc) email = Some c" and "status c = Revoked"
    and "\<not> is_connect_for email call"
  shows "\<exists>c'. Map_get (userConnections (exec svc call)) email = Some c' \<and> status c' = Revoked"
  using assms
  by (cases call)
    (auto simp: connectUserGoogleAccount_def Let_def getUserConnectionId_def hasUserConnection_def
      refreshUserConnection_def removeUserConnection_def snd_summary Map_get_set
      split: option.splits)

lemma nonconnects_keep_revoked:
  assumes "Map_get (userConnections svc) email = Some c" and "status c = Revoked"
    and "\<forall>call \<in> set calls. \<not> is_connect_for email call"
  shows "\<exists>c'. Map_get (userConnections (foldl exec svc calls)) email = Some c' \<and> status c' = Revoked"
  using assms
proof (induction calls arbitrary: svc c)
  case Nil
  then show ?case by simp
next
  case (Cons call calls)
  from Cons.prems obtain c' where
    "Map_get (userConnections (exec svc call)) email = Some c'" "status c' = Revoked"
    using nonconnect_keeps_revoked [of svc email c call] by auto
  with Cons.IH [of "exec svc call" c'] Cons.prems(3) show ?case by simp
qed

text \<open>
  C4: \<open>removeUserConnection\<close> on an email without a record returns false and changes
  nothing. On an email with a record it returns true and leaves that record with status
  revoked; the activity check that follows is false at every clock reading, whatever the
  record's expiry, and stays false after any further calls that do not connect the email
  again.
\<close>

theorem removeUserConnection_revokes:
  "(Map_get (userConnections svc) email = None \<longrightarrow> removeUserConnection svc email = (False, svc))
   \<and> (\<forall>c. Map_get (userConnections svc) email = Some c \<longrightarrow>
         fst (removeUserConnection svc email)
         \<and> Map_get (userConnections (snd (removeUserConnection svc email))) email
             = Some (c\<lparr>status := Revoked\<rparr>)
         \<and> (\<forall>now. \<not> fst (hasUserConnection (snd (removeUserConnection svc email)) now email))
         \<and> (\<forall>calls now. (\<forall>call \<in> set calls. \<not> is_connect_for email call) \<longrightarrow>
               \<not> fst (hasUserConnection
                        (foldl exec (snd (removeUserConnection svc email)) calls) now email)))"
proof -
  have none: "Map_get (userConnections svc) email = None \<longrightarrow>
                removeUserConnection svc email = (False, svc)"
    by (simp add: removeUserConnection_def)
  have some: "fst (removeUserConnection svc email)
         \<and> Map_get (userConnections (snd (removeUserConnection svc email))) email
             = Some (c\<lparr>status := Revoked\<rparr>)
         \<and> (\<forall>now. \<not> fst (hasUserConnection (snd (removeUserConnection svc email)) now email))
         \<and> (\<forall>calls now. (\<forall>call \<in> set calls. \<not> is_connect_for email call) \<longrightarrow>
               \<not> fst (hasUserConnection
                        (foldl exec (snd (removeUserConnection svc email)) calls) now email))"
    if c: "Map_get (userConnections svc) email = Some c" for c
  proof -
    let ?svc' = "snd (removeUserConnection svc email)"
    have r: "fst (removeUserConnection svc email)"
      using c by (simp add: removeUserConnection_def)
    have g: "Map_get (userConnections ?svc') email = Some (c\<lparr>status := Revoked\<rparr>)"
      using c by (simp add: removeUserConnection_def Map_get_set)
    have later: "\<not> fst (hasUserConnection (foldl exec ?svc' calls) now email)"
      if "\<forall>call \<in> set calls. \<not> is_connect_for email call" for calls now
    proof -
      from nonconnects_keep_revoked [OF g _ that] obtain c' where
        "Map_get (userConnections (foldl exec ?svc' calls)) email = Some c'" "status c' = Revoked"
        by auto
      then show ?thesis by (simp add: hasUserConnection_def)
    qed
    have now: "\<not> fst (hasUserConnection ?svc' now email)" for now
      using later [of "[]" now] by simp
    from r g now later show ?thesis by blast
  qed
  from none some show ?thesis by blast
qed

theorem removeUserConnection_revokes_witness:
  "fst (hasUserConnection svc_hour 1000 alice)
   \<and> fst (removeUserConnection svc_hour alice)
   \<and> \<not> fst (hasUserConnection (snd (removeUserConnection svc_hour alice)) 1000 alice)
   \<and> \<not> fst (hasUserConnection
             (foldl exec (snd (removeUserConnection svc_hour alice)) [Refresh 2000 alice]) 3000 alice)
   \<and> removeUserConnection new_ComposioService alice = (False, new_ComposioService)"
proof -
  have before: "fst (hasUserConnection svc_hour 1000 alice)"
    by (simp add: hasUserConnection_def svc_hour_eq)
  have present: "Map_get (userConnections svc_hour) alice =
      Some \<lparr>connectionId = js ''conn_a@b.com_0'', userEmail = alice, accessToken = js ''t1'',
            refreshToken = Some (js ''r1''), expiresAt = 3600000, status = Active\<rparr>"
    by (simp add: svc_hour_eq)
  have absent: "Map_get (userConnections new_ComposioService) alice = None"
    by (simp add: new_ComposioService_def)
  have calls: "\<forall>call \<in> set [Refresh 2000 alice]. \<not> is_connect_for alice call"
    by simp
  from removeUserConnection_revokes [of svc_hour alice] present
  have "fst (removeUserConnection svc_hour alice)"
    and "\<not> fst (hasUserConnection (snd (removeUserConnection svc_hour alice)) 1000 alice)"
    and "\<forall>calls now. (\<forall>call \<in> set calls. \<not> is_connect_for alice call) \<longrightarrow>
               \<not> fst (hasUserConnection
                        (foldl exec (snd (removeUserConnection svc_hour alice)) calls) now alice)"
    by blast+
  moreover from removeUserConnection_revokes [of new_ComposioService alice] absent
  have "removeUserConnection new_ComposioService alice = (False, new_ComposioService)"
    by blast
  ultimately show ?thesis using before calls by blast
qed

lemma svc_revoked_eq:
  "userConnections svc_revoked =
     [(alice, \<lparr>connectionId = js ''conn_a@b.com_0'', userEmail = alice, accessToken = js ''t1'',
               refreshToken = Some (js ''r1''), expiresAt = 3600000, status = Revoked\<rparr>)]"
  by (simp add: svc_revoked_def removeUserConnection_def svc_hour_eq)

text \<open>
  C10: \<open>refreshUserConnection\<close> does not look at the status. For a record of any status
  with a non-empty refresh token it returns true and sets the expiry to one hour after
  the clock reading, which is in the future; the status is as before, so for a record
  that is revoked (or has any status other than active) the activity check afterwards
  is false at every clock reading.
\<close>

theorem refresh_ignores_status:
  assumes "Map_get (userConnections svc) email = Some c" and "truthy (refreshToken c)"
  shows "fst (refreshUserConnection svc now email)
       \<and> Map_get (userConnections (snd (refreshUserConnection svc now email))) email
           = Some (c\<lparr>expiresAt := now + 3600000\<rparr>)
       \<and> now < now + (3600000 :: int)
       \<and> (status c \<noteq> Active \<longrightarrow>
            (\<forall>now'. \<not> fst (hasUserConnection (snd (refreshUserConnection svc now email)) now' email)))
       \<and> (status c = Active \<longrightarrow>
            fst (hasUserConnection (snd (refreshUserConnection svc now email)) now email))"
  using assms by (simp add: refreshUserConnection_def hasUserConnection_def Map_get_set)

theorem refresh_ignores_status_witness:
  "fst (refreshUserConnection svc_revoked 5000000 alice)
   \<and> map expiresAt (Map_values (userConnections (snd (refreshUserConnection svc_revoked 5000000 alice))))
        = [8600000]
   \<and> \<not> fst (hasUserConnection (snd (refreshUserConnection svc_revoked 5000000 alice)) 5000001 alice)"
  using refresh_ignores_status [of svc_revoked alice
      "\<lparr>connectionId = js ''conn_a@b.com_0'', userEmail = alice, accessToken = js ''t1'',
        refreshToken = Some (js ''r1''), expiresAt = 3600000, status = Revoked\<rparr>" 5000000]
  by (simp add: svc_revoked_eq js_def refreshUserConnection_def Map_values_def)

text \<open>
  C2, as stated: a successful refresh makes the expiry strictly later than it was. It
  does not for a record connected at time 0 with \<open>expiresIn = 7200\<close> and refreshed at
  time 1000: the refresh returns true and the expiry goes from 7200000 back to 3601000.
\<close>

theorem refresh_extends_counterexample:
  "map refreshToken (records_for svc_two_hours alice) = [Some (js ''r1'')]
   \<and> map expiresAt (records_for svc_two_hours alice) = [7200000]
   \<and> fst (refreshUserConnection svc_two_hours 1000 alice)
   \<and> map expiresAt (records_for (snd (refreshUserConnection svc_two_hours 1000 alice)) alice)
        = [3601000]
   \<and> \<not> (7200000 < (3601000 :: int))"
  by (simp add: records_for_def svc_two_hours_eq refreshUserConnection_def js_def)

text \<open>
  C2, amended: \<open>refreshUserConnection\<close> returns false and leaves the service as it was
  when the email has no record or its record's refresh token is absent or empty.
  Otherwise it returns true, replaces the expiry of that record by the clock reading
  plus 3600000 ms and changes nothing else; the new expiry is strictly later than the
  clock reading, and strictly later than the old expiry exactly when the old expiry was
  less than one hour after the clock reading.
\<close>

theorem refreshUserConnection_effect:
  "((Map_get (userConnections svc) email = None
      \<or> (\<exists>c. Map_get (userConnections svc) email = Some c \<and> \<not> truthy (refreshToken c)))
     \<longrightarrow> refreshUserConnection svc now email = (False, svc))
   \<and> (\<forall>c. Map_get (userConnections svc) email = Some c \<and> truthy (refreshToken c) \<longrightarrow>
         fst (refreshUserConnection svc now email)
         \<and> Map_get (userConnections (snd (refreshUserConnection svc now email))) email
             = Some (c\<lparr>expiresAt := now + 3600000\<rparr>)
         \<and> (\<forall>e'. e' \<noteq> email \<longrightarrow>
               Map_get (userConnections (snd (refreshUserConnection svc now email))) e'
                 = Map_get (userConnections svc) e')
         \<and> now < expiresAt (c\<lparr>expiresAt := now + 3600000\<rparr>)
         \<and> (expiresAt c < expiresAt (c\<lparr>expiresAt := now + 3600000\<rparr>)
              \<longleftrightarrow> expiresAt c < now + 3600000))"
  by (auto simp: refreshUserConnection_def Map_get_set)

theorem refreshUserConnection_effect_witness:
  "refreshUserConnection new_ComposioService 1000 alice = (False, new_ComposioService)
   \<and> fst (refreshUserConnection svc_hour 1000 alice)
   \<and> map expiresAt (records_for (snd (refreshUserConnection svc_hour 1000 alice)) alice) = [3601000]"
proof -
  have absent: "Map_get (userConnections new_ComposioService) alice = None"
    by (simp add: new_ComposioService_def)
  have present: "Map_get (userConnections svc_hour) alice =
      Some \<lparr>connectionId = js ''conn_a@b.com_0'', userEmail = alice, accessToken = js ''t1'',
            refreshToken = Some (js ''r1''), expiresAt = 3600000, status = Active\<rparr>
      \<and> truthy (refreshToken \<lparr>connectionId = js ''conn_a@b.com_0'', userEmail = alice,
            accessToken = js ''t1'', refreshToken = Some (js ''r1''), expiresAt = 3600000,
            status = Active\<rparr>)"
    by (simp add: svc_hour_eq js_def)
  from refreshUserConnection_effect [of new_ComposioService alice 1000] absent
  have 1: "refreshUserConnection new_ComposioService 1000 alice = (False, new_ComposioService)"
    by blast
  from refreshUserConnection_effect [of svc_hour alice 1000] present
  have 2: "fst (refreshUserConnection svc_hour 1000 alice)"
    by blast
  have 3: "map expiresAt (records_for (snd (refreshUserConnection svc_hour 1000 alice)) alice) = [3601000]"
    by (simp add: records_for_def svc_hour_eq refreshUserConnection_def js_def)
  from 1 2 3 show ?thesis by blast
qed

lemma Array_filter_active_const:
  "fst (Array_filter (active_cb (\<lambda>k. now)) cs k) =
     filter (\<lambda>c. status c = Active \<and> now < expiresAt c) cs"
  by (induction cs arbitrary: k) (simp_all add: active_cb_def case_prod_beta le_SucI)

lemma Array_filter_expired_const:
  "fst (Array_filter (expired_cb (\<lambda>k. now)) cs k) =
     filter (\<lambda>c. status c = Active \<and> expiresAt c \<le> now) cs"
  by (induction cs arbitrary: k) (simp_all add: expired_cb_def case_prod_beta le_SucI)

lemma Array_filter_active_le:
  "length (fst (Array_filter (active_cb clk) cs k)) \<le> length (filter (\<lambda>c. status c = Active) cs)"
  by (induction cs arbitrary: k) (simp_all add: active_cb_def case_prod_beta le_SucI)

lemma Array_filter_expired_le:
  "length (fst (Array_filter (expired_cb clk) cs k)) \<le> length (filter (\<lambda>c. status c = Active) cs)"
  by (induction cs arbitrary: k) (simp_all add: expired_cb_def case_prod_beta le_SucI)

lemma summary_eq:
  "fst (getUserConnectionsSummary svc clk) =
     \<lparr>total = length (Map_values (userConnections svc)),
      active = length (fst (Array_filter (active_cb clk) (Map_values (userConnections svc)) 0)),
      expired = length (fst (Array_filter (expired_cb clk) (Map_values (userConnections svc))
                  (snd (Array_filter (active_cb clk) (Map_values (userConnections svc)) 0))))\<rparr>"
  by (simp add: getUserConnectionsSummary_def Let_def split: prod.splits)

lemma active_split:
  "length (filter (\<lambda>c. status c = Active \<and> now < expiresAt c) cs)
     + length (filter (\<lambda>c. status c = Active \<and> expiresAt c \<le> now) cs)
   = length (filter (\<lambda>c. status c = Active) cs)"
  by (induction cs) auto

lemma status_split:
  "\<forall>c \<in> set cs. status c \<noteq> Expired \<Longrightarrow>
     length (filter (\<lambda>c. status c = Active) cs) + length (filter (\<lambda>c. status c = Revoked) cs)
       = length cs"
proof (induction cs)
  case Nil
  show ?case by simp
next
  case (Cons c cs)
  then show ?case by (cases "status c") auto
qed

lemma reachable_no_expired: "\<forall>c \<in> set (reachable_records calls). status c \<noteq> Expired"
  using inv_run [of calls] by (auto simp: registry_inv_def Map_values_def)

lemma two_users_eq:
  "userConnections (run two_users) =
     [(alice, \<lparr>connectionId = js ''conn_a@b.com_0'', userEmail = alice, accessToken = js ''t1'',
               refreshToken = Some (js ''r1''), expiresAt = 3600000, status = Active\<rparr>),
      (bob, \<lparr>connectionId = js ''conn_bob@x.org_0'', userEmail = bob, accessToken = js ''t2'',
               refreshToken = None, expiresAt = 3600000, status = Revoked\<rparr>)]"
  by (simp add: two_users_def run_def Let_def connectUserGoogleAccount_def new_ComposioService_def
      removeUserConnection_def
      Number_toString_def nat_digits.simps digit_unit_def alice_def bob_def js_def)

text \<open>
  At a single instant the summary is a partition: when all the clock readings taken
  during the call are the same instant \<open>now\<close>, \<open>active\<close> counts the records with status
  active and expiry after \<open>now\<close>, \<open>expired\<close> those with status active and expiry at or
  before \<open>now\<close>; \<open>active + expired\<close> plus the number of revoked records is \<open>total\<close>, so
  \<open>active + expired\<close> is at most \<open>total\<close>, with equality exactly when no record is
  revoked. For any readings, \<open>total\<close> is the number of records, neither count exceeds
  the number of records with status active, and the call leaves the registry as it was.
\<close>

lemma summary_at_one_instant:
  "total (summary_of calls clk) = length (reachable_records calls)
   \<and> active (summary_of calls clk)
        \<le> length (filter (\<lambda>c. status c = Active) (reachable_records calls))
   \<and> expired (summary_of calls clk)
        \<le> length (filter (\<lambda>c. status c = Active) (reachable_records calls))
   \<and> active (summary_of calls (\<lambda>k. now))
        = length (filter (\<lambda>c. status c = Active \<and> now < expiresAt c) (reachable_records calls))
   \<and> expired (summary_of calls (\<lambda>k. now))
        = length (filter (\<lambda>c. status c = Active \<and> expiresAt c \<le> now) (reachable_records calls))
   \<and> active (summary_of calls (\<lambda>k. now)) + expired (summary_of calls (\<lambda>k. now))
        + length (filter (\<lambda>c. status c = Revoked) (reachable_records calls))
        = total (summary_of calls (\<lambda>k. now))
   \<and> active (summary_of calls (\<lambda>k. now)) + expired (summary_of calls (\<lambda>k. now))
        \<le> total (summary_of calls (\<lambda>k. now))
   \<and> (active (summary_of calls (\<lambda>k. now)) + expired (summary_of calls (\<lambda>k. now))
        = total (summary_of calls (\<lambda>k. now))
      \<longleftrightarrow> (\<forall>c \<in> set (reachable_records calls). status c \<noteq> Revoked))
   \<and> snd (getUserConnectionsSummary (run calls) clk) = run calls"
proof -
  define cs where "cs = reachable_records calls"
  define a where "a = length (filter (\<lambda>c. status c = Active \<and> now < expiresAt c) cs)"
  define e where "e = length (filter (\<lambda>c. status c = Active \<and> expiresAt c \<le> now) cs)"
  define r where "r = length (filter (\<lambda>c. status c = Revoked) cs)"
  have t: "total (summary_of calls clk) = length cs" for clk
    by (simp add: summary_eq cs_def)
  have al: "active (summary_of calls clk) \<le> length (filter (\<lambda>c. status c = Active) cs)" for clk
    by (simp add: summary_eq cs_def Array_filter_active_le)
  have el: "expired (summary_of calls clk) \<le> length (filter (\<lambda>c. status c = Active) cs)" for clk
    by (simp add: summary_eq cs_def Array_filter_expired_le)
  have ac: "active (summary_of calls (\<lambda>k. now)) = a"
    by (simp add: summary_eq cs_def a_def Array_filter_active_const)
  have ec: "expired (summary_of calls (\<lambda>k. now)) = e"
    by (simp add: summary_eq cs_def e_def Array_filter_expired_const)
  have "\<forall>c \<in> set cs. status c \<noteq> Expired"
    unfolding cs_def by (rule reachable_no_expired)
  then have "length (filter (\<lambda>c. status c = Active) cs) + r = length cs"
    unfolding r_def by (rule status_split)
  moreover have "a + e = length (filter (\<lambda>c. status c = Active) cs)"
    unfolding a_def e_def by (rule active_split)
  ultimately have sum: "a + e + r = length cs"
    by simp
  have r0: "r = 0 \<longleftrightarrow> (\<forall>c \<in> set cs. status c \<noteq> Revoked)"
    by (simp add: r_def filter_empty_conv)
  have eq: "a + e = length cs \<longleftrightarrow> (\<forall>c \<in> set cs. status c \<noteq> Revoked)"
    using sum r0 by auto
  have le: "a + e \<le> length cs"
    using sum by simp
  show ?thesis
    using t al el ac ec sum eq le
    unfolding a_def e_def r_def cs_def
    by (simp add: snd_summary)
qed

lemma summary_at_one_instant_example:
  "fst (getUserConnectionsSummary (run two_users) (\<lambda>k. 1000)) = \<lparr>total = 2, active = 1, expired = 0\<rparr>
   \<and> fst (getUserConnectionsSummary svc_hour (\<lambda>k. 3600000)) = \<lparr>total = 1, active = 0, expired = 1\<rparr>"
  using summary_at_one_instant [of two_users "\<lambda>k. 1000" 1000]
    summary_at_one_instant [of "[Connect 0 0 alice (js ''t1'') (Some (js ''r1'')) None]" "\<lambda>k. 3600000" 3600000]
  by (simp add: two_users_eq svc_hour_run [symmetric] svc_hour_eq Map_values_def)

text \<open>
  C9: the two filters split the records with status active by complementary tests
  (\<open>>\<close> and \<open><=\<close>), so \<open>active + expired\<close> should be at most \<open>total\<close>. But each
  callback reads \<open>Date.now()\<close> again. On the registry holding one record that expires at
  3600000, with the clock moving from 3599999 to 3600000 between the two passes, the
  record is counted as active and as expired: the summary is
  \<open>{total: 1, active: 1, expired: 1}\<close>.
\<close>

theorem summary_double_count:
  "fst (getUserConnectionsSummary
          (run [Connect 0 0 alice (js ''t1'') (Some (js ''r1'')) None]) clk_tick)
     = \<lparr>total = 1, active = 1, expired = 1\<rparr>
   \<and> \<not> (active (fst (getUserConnectionsSummary
                 (run [Connect 0 0 alice (js ''t1'') (Some (js ''r1'')) None]) clk_tick))
          + expired (fst (getUserConnectionsSummary
                 (run [Connect 0 0 alice (js ''t1'') (Some (js ''r1'')) None]) clk_tick))
        \<le> total (fst (getUserConnectionsSummary
                 (run [Connect 0 0 alice (js ''t1'') (Some (js ''r1'')) None]) clk_tick)))"
  by (simp add: svc_hour_run [symmetric] getUserConnectionsSummary_def Map_values_def
      svc_hour_eq active_cb_def expired_cb_def clk_tick_def)

section \<open>Properties of the API server\<close>

lemma entity_unit_sanitized: "entity_unit (lower_unit (sanitize_unit c))"
proof (cases "alnum c")
  case True
  then show ?thesis
    unfolding alnum_def entity_unit_def lower_unit_def sanitize_unit_def
    by (auto simp: word_le_nat_alt unat_word_ariths)
next
  case False
  then show ?thesis
    by (simp add: entity_unit_def lower_unit_def sanitize_unit_def)
qed

lemma entityId_units: "list_all entity_unit (entityId_of email)"
  by (simp add: entityId_of_def toLowerCase_def replace_non_alnum_def list_all_iff
      entity_unit_sanitized)

lemma sanitize_unit_ascii: "sanitize_unit c < 0x80"
  unfolding sanitize_unit_def alnum_def
  by (auto simp: word_le_nat_alt word_less_nat_alt)

lemma replace_ascii: "list_all (\<lambda>c. c < 0x80) (replace_non_alnum email)"
  by (simp add: replace_non_alnum_def list_all_iff sanitize_unit_ascii)

lemma setup_stores_entity:
  "Map_get (userEntities (snd (setupUserConnectionIfNotExists srv ext email))) email
     = Some (entityId_of email)"
  by (simp add: setupUserConnectionIfNotExists_def Let_def Map_get_set
      split: sum.splits prod.splits)

text \<open>
  C1, as stated: the entity id contains only alphanumeric characters. For \<open>a@b.com\<close> it is
  \<open>a_b_com\<close>: every character that is not alphanumeric is replaced by an underscore, not
  dropped.
\<close>

theorem entityId_alnum_counterexample:
  "entityId_of (js ''a@b.com'') = js ''a_b_com'' \<and> \<not> list_all alnum (entityId_of (js ''a@b.com''))"
  by (simp add: entityId_of_def toLowerCase_def replace_non_alnum_def lower_unit_def
      sanitize_unit_def alnum_def js_def)

lemma entity_unit_pointwise:
  "lower_unit (sanitize_unit c) =
     (if (0x61 \<le> c \<and> c \<le> 0x7A) \<or> (0x30 \<le> c \<and> c \<le> 0x39) then c
      else if 0x41 \<le> c \<and> c \<le> 0x5A then c + 0x20
      else 0x5F)"
  unfolding lower_unit_def sanitize_unit_def alnum_def
  by (auto simp: word_le_nat_alt)

text \<open>
  C1, amended: the entity id is a function of the email alone, computed code unit by
  code unit: a lower-case ASCII letter or a digit is kept, an upper-case ASCII letter
  is replaced by its lower-case letter, and every other code unit is replaced by an
  underscore. So the id has the length of the email and consists of lower-case ASCII
  letters, digits and underscores only. \<open>toLowerCase\<close> only ever sees ASCII. Whatever
  the state of the server and the outcomes of the connector calls,
  \<open>setupUserConnectionIfNotExists\<close> stores this id for the email.
\<close>

theorem entityId_sanitized:
  "entityId_of email =
     map (\<lambda>c. if (0x61 \<le> c \<and> c \<le> 0x7A) \<or> (0x30 \<le> c \<and> c \<le> 0x39) then c
              else if 0x41 \<le> c \<and> c \<le> 0x5A then c + 0x20
              else 0x5F) email
   \<and> length (entityId_of email) = length email
   \<and> list_all entity_unit (entityId_of email)
   \<and> list_all (\<lambda>c. c < 0x80) (replace_non_alnum email)
   \<and> Map_get (userEntities (snd (setupUserConnectionIfNotExists srv ext email))) email
        = Some (entityId_of email)"
proof -
  have "entityId_of email = map (\<lambda>c. lower_unit (sanitize_unit c)) email"
    by (simp add: entityId_of_def toLowerCase_def replace_non_alnum_def)
  then have pointwise: "entityId_of email =
     map (\<lambda>c. if (0x61 \<le> c \<and> c \<le> 0x7A) \<or> (0x30 \<le> c \<and> c \<le> 0x39) then c
              else if 0x41 \<le> c \<and> c \<le> 0x5A then c + 0x20
              else 0x5F) email"
    by (simp only: entity_unit_pointwise)
  have len: "length (entityId_of email) = length email"
    by (simp add: entityId_of_def toLowerCase_def replace_non_alnum_def)
  from pointwise len entityId_units [of email] replace_ascii [of email]
    setup_stores_entity [of srv ext email]
  show ?thesis by blast
qed

theorem entityId_sanitized_witness:
  "list_all entity_unit (js ''ann_lee_example_com'')
   \<and> entityId_of (js ''Ann.Lee@Example.com'') = js ''ann_lee_example_com''
   \<and> Map_get (userEntities (snd (setupUserConnectionIfNotExists new_server setup_found
        (js ''Ann.Lee@Example.com'')))) (js ''Ann.Lee@Example.com'') = Some (js ''ann_lee_example_com'')"
proof -
  have e: "map (\<lambda>c. if (0x61 \<le> c \<and> c \<le> 0x7A) \<or> (0x30 \<le> c \<and> c \<le> 0x39) then c
              else if 0x41 \<le> c \<and> c \<le> 0x5A then c + 0x20
              else (0x5F :: 16 word)) (js ''Ann.Lee@Example.com'') = js ''ann_lee_example_com''"
    by (simp add: js_def)
  note th = entityId_sanitized [of "js ''Ann.Lee@Example.com''" new_server setup_found]
  from th e have id: "entityId_of (js ''Ann.Lee@Example.com'') = js ''ann_lee_example_com''"
    by (elim conjE) (rule trans)
  from th have "list_all entity_unit (entityId_of (js ''Ann.Lee@Example.com''))"
    and "Map_get (userEntities (snd (setupUserConnectionIfNotExists new_server setup_found
        (js ''Ann.Lee@Example.com'')))) (js ''Ann.Lee@Example.com'')
          = Some (entityId_of (js ''Ann.Lee@Example.com''))"
    by blast+
  with id show ?thesis by simp
qed

lemma check_absent:
  "Map_get (server_connections srv) email = None \<Longrightarrow>
     resolved_status srv ext email = Some St_not_found"
  by (simp add: resolved_status_def checkConnectionStatus_def)

lemma dispatch_thrown:
  assumes "resolved_status srv ext email = None"
  shows "llm_calls (dispatch srv ext email) = 0 \<and> (\<exists>t. reply (dispatch srv ext email) = Json_500 t)"
proof (cases "checkConnectionStatus srv (tools_at_check ext) email")
  case (Pair outcome srv1)
  with assms obtain error where "outcome = Inl error"
    by (cases outcome) (simp_all add: resolved_status_def)
  with Pair show ?thesis by (simp add: dispatch_def)
qed

lemma dispatch_inactive:
  assumes "resolved_status srv ext email = Some st" and "st \<noteq> St_active"
  shows "llm_calls (dispatch srv ext email) = 0
       \<and> (\<exists>r. reply (dispatch srv ext email) = Json_200 r \<and> needsConnection r
              \<and> rsp_userEmail r = email
              \<and> rsp_message r \<in> {msg_not_found, msg_pending,
                    msg_error (resolved_message srv ext email)})"
proof (cases "checkConnectionStatus srv (tools_at_check ext) email")
  case (Pair outcome srv1)
  with assms(1) obtain connectionStatus where
    out: "outcome = Inr connectionStatus" and st: "cr_status connectionStatus = st"
    by (cases outcome) (simp_all add: resolved_status_def)
  from assms(2) consider "st = St_not_found" | "st = St_pending" | "st = St_error"
    by (cases st) auto
  then show ?thesis
    using Pair out st
    by cases (simp_all add: dispatch_def needs_connection_def resolved_message_def)
qed

lemma dispatch_llm:
  assumes "0 < llm_calls (dispatch srv ext email)"
  shows "resolved_status srv ext email = Some St_active"
proof (cases "resolved_status srv ext email")
  case None
  with assms dispatch_thrown [of srv ext email] show ?thesis by simp
next
  case (Some st)
  with assms dispatch_inactive [of srv ext email st] show ?thesis by auto
qed

text \<open>
  C6: for a request with a message and a user email whose connection status resolves to
  not-found, pending or error, the endpoint starts no \<open>generateText\<close> call and replies
  with status 200, \<open>needsConnection\<close> set and one of the three messages asking the user
  to connect, finish connecting or reconnect. For any request at all, a \<open>generateText\<close>
  call is started only if the status resolved is active. An email without an entry in
  the server's connection map resolves to not-found. When no status is resolved
  (\<open>checkConnectionStatus\<close> throws on a connector rejection with \<open>null\<close> or
  \<open>undefined\<close>), the reply is a 500 and again no \<open>generateText\<close> call is started.
\<close>

theorem dispatch_short_circuits:
  "(truthy (req_message req) \<and> req_userEmail req = Some email \<and> email \<noteq> []
      \<and> resolved_status srv ext email \<in> {Some St_not_found, Some St_pending, Some St_error}
     \<longrightarrow> llm_calls (send_message srv ext req) = 0
         \<and> (\<exists>r. reply (send_message srv ext req) = Json_200 r \<and> needsConnection r
                \<and> rsp_userEmail r = email
                \<and> rsp_message r \<in> {msg_not_found, msg_pending,
                      msg_error (resolved_message srv ext email)}))
   \<and> (0 < llm_calls (send_message srv ext req)
        \<longrightarrow> (\<exists>e. req_userEmail req = Some e \<and> resolved_status srv ext e = Some St_active))
   \<and> (Map_get (server_connections srv) email = None
        \<longrightarrow> resolved_status srv ext email = Some St_not_found)
   \<and> (truthy (req_message req) \<and> req_userEmail req = Some email \<and> email \<noteq> []
      \<and> resolved_status srv ext email = None
     \<longrightarrow> llm_calls (send_message srv ext req) = 0
         \<and> (\<exists>t. reply (send_message srv ext req) = Json_500 t))"
proof -
  have 1: "llm_calls (send_message srv ext req) = 0
         \<and> (\<exists>r. reply (send_message srv ext req) = Json_200 r \<and> needsConnection r
                \<and> rsp_userEmail r = email
                \<and> rsp_message r \<in> {msg_not_found, msg_pending,
                      msg_error (resolved_message srv ext email)})"
    if "truthy (req_message req)" "req_userEmail req = Some email" "email \<noteq> []"
      "resolved_status srv ext email \<in> {Some St_not_found, Some St_pending, Some St_error}"
  proof -
    from that have "send_message srv ext req = dispatch srv ext email"
      by (simp add: send_message_def)
    moreover from that(4) obtain st where
      "resolved_status srv ext email = Some st" "st \<noteq> St_active"
      by auto
    ultimately show ?thesis
      using dispatch_inactive [of srv ext email st] by simp
  qed
  have 2: "\<exists>e. req_userEmail req = Some e \<and> resolved_status srv ext e = Some St_active"
    if pos: "0 < llm_calls (send_message srv ext req)"
  proof (cases "req_userEmail req")
    case None
    with pos show ?thesis by (simp add: send_message_def split: if_splits)
  next
    case (Some e)
    with pos have "send_message srv ext req = dispatch srv ext e"
      by (simp add: send_message_def split: if_splits)
    with pos have "0 < llm_calls (dispatch srv ext e)" by simp
    then have "resolved_status srv ext e = Some St_active"
      by (rule dispatch_llm)
    with Some show ?thesis by simp
  qed
  have 3: "llm_calls (send_message srv ext req) = 0
         \<and> (\<exists>t. reply (send_message srv ext req) = Json_500 t)"
    if "truthy (req_message req)" "req_userEmail req = Some email" "email \<noteq> []"
      "resolved_status srv ext email = None"
  proof -
    from that have "send_message srv ext req = dispatch srv ext email"
      by (simp add: send_message_def)
    with that(4) show ?thesis
      using dispatch_thrown [of srv ext email] by simp
  qed
  from 1 2 3 check_absent [of srv email ext] show ?thesis by blast
qed

lemma srv_alice_eq:
  "srv_alice =
     \<lparr>server_connections =
        [(alice, \<lparr>cd_entityId = js ''a_b_com'', cd_connectionId = js ''c1'',
                  cd_redirectUrl = None, cd_status = Link_active,
                  cd_connectedAt = Some (js ''2025''), cd_createdAt = None\<rparr>)],
      userEntities = [(alice, js ''a_b_com'')]\<rparr>"
  by (simp add: srv_alice_def setupUserConnectionIfNotExists_def Let_def setup_found_def
      new_server_def entityId_of_def toLowerCase_def replace_non_alnum_def lower_unit_def
      sanitize_unit_def alnum_def alice_def js_def)

lemma alice_nonempty: "alice \<noteq> []"
  by (simp add: alice_def js_def)

lemma srv_alice_entity: "truthy (Map_get (userEntities srv_alice) alice)"
  by (simp add: srv_alice_eq js_def)

lemma srv_alice_statuses:
  "resolved_status new_server all_fine alice = Some St_not_found"
  "resolved_status srv_alice all_fine alice = Some St_active"
  "resolved_status srv_alice tools_fail alice = Some St_error"
  "resolved_message srv_alice tools_fail alice = Some (js ''timeout'')"
  "resolved_status srv_alice tools_reject_null alice = None"
  using srv_alice_entity
  by (simp_all add: resolved_status_def resolved_message_def checkConnectionStatus_def
      getUserTools_def new_server_def all_fine_def tools_fail_def tools_reject_null_def
      srv_alice_eq)

theorem dispatch_short_circuits_witness:
  "llm_calls (send_message new_server all_fine book_lunch) = 0
   \<and> reply (send_message new_server all_fine book_lunch)
        = Json_200 (needs_connection msg_not_found None alice)
   \<and> llm_calls (send_message srv_alice all_fine book_lunch) = 2
   \<and> resolved_status srv_alice all_fine alice = Some St_active
   \<and> llm_calls (send_message srv_alice tools_fail book_lunch) = 0
   \<and> reply (send_message srv_alice tools_fail book_lunch)
        = Json_200 (needs_connection (msg_error (Some (js ''timeout''))) None alice)
   \<and> llm_calls (send_message srv_alice tools_reject_null book_lunch) = 0
   \<and> reply (send_message srv_alice tools_reject_null book_lunch)
        = Json_500 (error_text (cannot_read_message ''null''))"
proof -
  note a = alice_nonempty
  have req: "truthy (req_message book_lunch)" "req_userEmail book_lunch = Some alice"
    by (simp_all add: book_lunch_def js_def)
  have sm: "send_message srv ext book_lunch = dispatch srv ext alice" for srv ext
    using a req by (simp add: send_message_def)
  have r: "reply (send_message new_server all_fine book_lunch)
        = Json_200 (needs_connection msg_not_found None alice)"
    by (simp add: sm dispatch_def checkConnectionStatus_def new_server_def)
  have two: "llm_calls (send_message srv_alice all_fine book_lunch) = 2"
    using srv_alice_entity
    by (simp add: sm dispatch_def checkConnectionStatus_def getUserTools_def all_fine_def
        srv_alice_eq Map_get_set)
  have e: "reply (send_message srv_alice tools_fail book_lunch)
        = Json_200 (needs_connection (msg_error (Some (js ''timeout''))) None alice)"
    using srv_alice_entity
    by (simp add: sm dispatch_def checkConnectionStatus_def getUserTools_def tools_fail_def
        all_fine_def srv_alice_eq)
  have n: "reply (send_message srv_alice tools_reject_null book_lunch)
        = Json_500 (error_text (cannot_read_message ''null''))"
    using srv_alice_entity
    by (simp add: sm dispatch_def checkConnectionStatus_def getUserTools_def
        tools_reject_null_def all_fine_def srv_alice_eq)
  from dispatch_short_circuits [of book_lunch alice new_server all_fine] req a srv_alice_statuses
  have zero: "llm_calls (send_message new_server all_fine book_lunch) = 0"
    by simp
  from dispatch_short_circuits [of book_lunch alice srv_alice all_fine] two
  have act: "resolved_status srv_alice all_fine alice = Some St_active"
    by (simp add: req)
  from dispatch_short_circuits [of book_lunch alice srv_alice tools_fail] req a srv_alice_statuses
  have ze: "llm_calls (send_message srv_alice tools_fail book_lunch) = 0"
    by simp
  from dispatch_short_circuits [of book_lunch alice srv_alice tools_reject_null] req a
    srv_alice_statuses
  have zn: "llm_calls (send_message srv_alice tools_reject_null book_lunch) = 0"
    by simp
  from zero r two act ze e zn n show ?thesis by simp
qed

section \<open>Properties of the OAuth callback component\<close>

lemma caught_status:
  "final_status (caught trace error now stamp) = Cb_error
   \<and> statuses (caught trace error now stamp) = map cb_status trace @ [Cb_error]
   \<and> redirect_delay (caught trace error now stamp) = 5000"
  by (simp add: caught_def final_status_def statuses_def)

lemma no_result_fails:
  assumes "handleCallback svc url = Inr None"
  shows "final_status (handleOAuthCallback svc user_email now stamp url) = Cb_error
       \<and> statuses (handleOAuthCallback svc user_email now stamp url)
           = [Cb_processing, Cb_processing, Cb_error]
       \<and> cb_details (last (states (handleOAuthCallback svc user_email now stamp url)))
           = Some (js ''Failed to process OAuth callback'')"
  using assms
  by (simp add: handleOAuthCallback_def caught_def final_status_def statuses_def
      initial_state_def validating_def)

lemma spec_handleCallback_absent:
  "Map_get (searchParams url) (js ''code'') = None \<or> Map_get (searchParams url) (js ''state'') = None
     \<Longrightarrow> spec_handleCallback url = Inr None"
  by (auto simp: spec_handleCallback_def split: option.splits)

text \<open>
  C7: with \<open>oauthService.handleCallback\<close> as the spec describes it, a redirect URL that
  lacks the \<open>code\<close> or the \<open>state\<close> query parameter takes the component from processing
  straight to the error state: the run ends there, no state of the run is the success
  state, no token exchange result matters, and the redirect waits the long delay.
\<close>

theorem missing_parameter_ends_in_error:
  "Map_get (searchParams url) (js ''code'') = None \<or> Map_get (searchParams url) (js ''state'') = None
   \<Longrightarrow> final_status (handleOAuthCallback (svc\<lparr>handleCallback := spec_handleCallback\<rparr>)
          user_email now stamp url) = Cb_error
     \<and> Cb_success \<notin> set (statuses (handleOAuthCallback (svc\<lparr>handleCallback := spec_handleCallback\<rparr>)
          user_email now stamp url))
     \<and> statuses (handleOAuthCallback (svc\<lparr>handleCallback := spec_handleCallback\<rparr>)
          user_email now stamp url) = [Cb_processing, Cb_processing, Cb_error]
     \<and> redirect_delay (handleOAuthCallback (svc\<lparr>handleCallback := spec_handleCallback\<rparr>)
          user_email now stamp url) = 5000"
proof -
  assume "Map_get (searchParams url) (js ''code'') = None
            \<or> Map_get (searchParams url) (js ''state'') = None"
  then have none: "handleCallback (svc\<lparr>handleCallback := spec_handleCallback\<rparr>) url = Inr None"
    by (simp add: spec_handleCallback_absent)
  from no_result_fails [OF none, of user_email now stamp]
  have "final_status (handleOAuthCallback (svc\<lparr>handleCallback := spec_handleCallback\<rparr>)
          user_email now stamp url) = Cb_error"
    and st: "statuses (handleOAuthCallback (svc\<lparr>handleCallback := spec_handleCallback\<rparr>)
          user_email now stamp url) = [Cb_processing, Cb_processing, Cb_error]"
    by simp_all
  moreover have "redirect_delay (handleOAuthCallback (svc\<lparr>handleCallback := spec_handleCallback\<rparr>)
          user_email now stamp url) = 5000"
    using none by (simp add: handleOAuthCallback_def caught_def)
  ultimately show ?thesis by simp
qed

theorem missing_parameter_ends_in_error_witness:
  "Map_get (searchParams url_no_state) (js ''state'') = None
   \<and> final_status (handleOAuthCallback (bridge_down\<lparr>handleCallback := spec_handleCallback\<rparr>)
        (Some alice) 0 (js ''2025'') url_no_state) = Cb_error
   \<and> final_status (handleOAuthCallback (bridge_down\<lparr>handleCallback := spec_handleCallback\<rparr>)
        (Some alice) 0 (js ''2025'') url_ok) = Cb_success"
proof -
  have absent: "Map_get (searchParams url_no_state) (js ''state'') = None"
    by (simp add: url_no_state_def js_def)
  have ok: "final_status (handleOAuthCallback (bridge_down\<lparr>handleCallback := spec_handleCallback\<rparr>)
        (Some alice) 0 (js ''2025'') url_ok) = Cb_success"
    by (simp add: handleOAuthCallback_def spec_handleCallback_def url_ok_def bridge_down_def
        final_status_def succeeded_def js_def)
  from missing_parameter_ends_in_error [of url_no_state bridge_down "Some alice" 0 "js ''2025''"]
    absent ok
  show ?thesis by blast
qed

text \<open>
  C8: when \<open>handleCallback\<close> returns a code and a state and the token exchange succeeds,
  the component ends in the success state and never enters the error state, whatever the
  notification of the server does; when that notification throws, the thrown value is
  recorded as logged and the run is otherwise the successful one, with the short
  redirect delay.
\<close>

theorem bridge_failure_swallowed:
  assumes "handleCallback svc url = Inr (Some (code, stateParam))"
    and "exchangeCodeForTokens svc code stateParam = Inr tokens"
  shows "final_status (handleOAuthCallback svc user_email now stamp url) = Cb_success
       \<and> Cb_error \<notin> set (statuses (handleOAuthCallback svc user_email now stamp url))
       \<and> redirect_delay (handleOAuthCallback svc user_email now stamp url) = 2000
       \<and> (\<forall>email error. user_email = Some email \<and> email \<noteq> []
              \<and> connectToServerIntegration svc email = Inl error
            \<longrightarrow> bridge (handleOAuthCallback svc user_email now stamp url) = Bridge_failed error)"
  using assms
  by (auto simp: handleOAuthCallback_def final_status_def statuses_def notify_server_def
      initial_state_def validating_def exchanging_def configuring_def succeeded_def)

theorem bridge_failure_swallowed_witness:
  "final_status (handleOAuthCallback bridge_down (Some alice) 0 (js ''2025'') url_ok) = Cb_success
   \<and> bridge (handleOAuthCallback bridge_down (Some alice) 0 (js ''2025'') url_ok)
        = Bridge_failed (Error (js ''Failed to fetch''))
   \<and> statuses (handleOAuthCallback bridge_down (Some alice) 0 (js ''2025'') url_ok)
        = [Cb_processing, Cb_processing, Cb_processing, Cb_processing, Cb_success]"
proof -
  have parse: "handleCallback bridge_down url_ok = Inr (Some (js ''ABC'', js ''XYZ''))"
    and exchange: "exchangeCodeForTokens bridge_down (js ''ABC'') (js ''XYZ'') = Inr (js ''t1'')"
    and down: "connectToServerIntegration bridge_down alice = Inl (Error (js ''Failed to fetch''))"
    by (simp_all add: bridge_down_def)
  have a: "alice \<noteq> []" by (simp add: alice_def js_def)
  have st: "statuses (handleOAuthCallback bridge_down (Some alice) 0 (js ''2025'') url_ok)
        = [Cb_processing, Cb_processing, Cb_processing, Cb_processing, Cb_success]"
    by (simp add: handleOAuthCallback_def statuses_def bridge_down_def initial_state_def
        validating_def exchanging_def configuring_def succeeded_def)
  from bridge_failure_swallowed [OF parse exchange, of "Some alice" 0 "js ''2025''"] a down st
  show ?thesis by simp
qed

end
